theory Spec2Isabelle
  imports Complex_Main "HOL-Library.Word" "HOL-Library.Extended_Nat"
begin

section \<open>JavaScript values\<close>

text \<open>
  A JavaScript string is a sequence of UTF-16 code units, and \<^verbatim>\<open>.length\<close> counts
  code units, so a string is a list of 16-bit words. \<open>js\<close> embeds an ASCII literal.
\<close>

type_synonym jsstring = "16 word list"

definition js :: "string \<Rightarrow> jsstring" where
  "js s = map (\<lambda>c. of_nat (of_char c)) s"

text \<open>
  \<^verbatim>\<open>String.prototype.trim\<close> removes ECMAScript WhiteSpace and LineTerminator code points
  from both ends: TAB, LF, VT, FF, CR, SP, NBSP, U+1680, U+2000..U+200A, U+2028, U+2029,
  U+202F, U+205F, U+3000 and U+FEFF. All of them are single code units.
\<close>

definition isWhiteSpace :: "16 word \<Rightarrow> bool" where
  "isWhiteSpace c =
     (c = 0x9 \<or> c = 0xA \<or> c = 0xB \<or> c = 0xC \<or> c = 0xD \<or> c = 0x20 \<or> c = 0xA0
      \<or> c = 0x1680 \<or> (0x2000 \<le> c \<and> c \<le> 0x200A) \<or> c = 0x2028 \<or> c = 0x2029
      \<or> c = 0x202F \<or> c = 0x205F \<or> c = 0x3000 \<or> c = 0xFEFF)"

definition trim :: "jsstring \<Rightarrow> jsstring" where
  "trim s = rev (dropWhile isWhiteSpace (rev (dropWhile isWhiteSpace s)))"

text \<open>
  The values \<^verbatim>\<open>express.json()\<close> can put into \<^verbatim>\<open>req.body\<close>. A property that is absent
  reads as \<^verbatim>\<open>undefined\<close>, which is \<open>None\<close> in \<open>json option\<close>.
\<close>

datatype json =
    JNull
  | JBool bool
  | JNum rat
  | JStr jsstring
  | JArr "json list"
  | JObj "(jsstring \<times> json) list"

text \<open>
  Express 4 with \<^verbatim>\<open>express.json()\<close> in its default strict mode leaves an object or an
  array in \<^verbatim>\<open>req.body\<close> (the empty object when no JSON body was parsed).
\<close>

datatype req_body =
    ObjectBody "(jsstring \<times> json) list"
  | ArrayBody "json list"

text \<open>\<^verbatim>\<open>const { message } = req.body\<close>\<close>

fun body_message :: "req_body \<Rightarrow> json option" where
  "body_message (ObjectBody kvs) = map_of kvs (js ''message'')"
| "body_message (ArrayBody xs) = None"

text \<open>ToBoolean, as used by \<^verbatim>\<open>!message\<close>.\<close>

fun truthy :: "json option \<Rightarrow> bool" where
  "truthy None = False"
| "truthy (Some JNull) = False"
| "truthy (Some (JBool b)) = b"
| "truthy (Some (JNum n)) = (n \<noteq> 0)"
| "truthy (Some (JStr s)) = (s \<noteq> [])"
| "truthy (Some (JArr xs)) = True"
| "truthy (Some (JObj kvs)) = True"

fun typeof :: "json option \<Rightarrow> string" where
  "typeof None = ''undefined''"
| "typeof (Some JNull) = ''object''"
| "typeof (Some (JBool b)) = ''boolean''"
| "typeof (Some (JNum n)) = ''number''"
| "typeof (Some (JStr s)) = ''string''"
| "typeof (Some (JArr xs)) = ''object''"
| "typeof (Some (JObj kvs)) = ''object''"

text \<open>The string held by a value whose \<open>typeof\<close> is \<open>''string''\<close>.\<close>

fun string_of :: "json option \<Rightarrow> jsstring" where
  "string_of (Some (JStr s)) = s"
| "string_of v = []"

section \<open>Errors, usage summaries and the usage accumulator\<close>

text \<open>
  An \<^verbatim>\<open>Error\<close> object as the handlers read it: \<^verbatim>\<open>err.statusCode\<close>, \<^verbatim>\<open>err.status\<close>
  (absent is \<open>None\<close>) and \<^verbatim>\<open>err.message\<close>.
\<close>

record js_error =
  err_statusCode :: "nat option"
  err_status :: "nat option"
  err_message :: jsstring

text \<open>\<^verbatim>\<open>new Error(msg)\<close> followed by \<^verbatim>\<open>err.statusCode = code\<close>.\<close>

definition new_Error :: "jsstring \<Rightarrow> nat \<Rightarrow> js_error" where
  "new_Error msg code = \<lparr>err_statusCode = Some code, err_status = None, err_message = msg\<rparr>"

text \<open>
  The provider's usage object. Token counts are JavaScript numbers that hold
  non-negative integers; a field the provider left out is \<open>None\<close>.
\<close>

record completion_usage =
  prompt_tokens :: "nat option"
  completion_tokens :: "nat option"
  total_tokens :: "nat option"

text \<open>\<^verbatim>\<open>x || 0\<close> on a number field.\<close>

fun or0 :: "nat option \<Rightarrow> nat" where
  "or0 None = 0"
| "or0 (Some n) = (if n \<noteq> 0 then n else 0)"

text \<open>
  The counters are JavaScript numbers, IEEE 754 doubles, and \<^verbatim>\<open>+=\<close> adds doubles. A
  counter starts at 0 and only has non-negative integers added to it, so its value is a
  non-negative integer or \<^verbatim>\<open>Infinity\<close>: an \<open>enat\<close>. The sum of two doubles is their exact
  sum rounded to the nearest double, ties to the even significand. A double has 53
  significant bits: an integer below \<open>2 ^ 53\<close> is a double, and a larger one with bit
  length \<open>k\<close> is rounded to a multiple of \<open>2 ^ (k - 53)\<close>. A result of \<open>2 ^ 1024\<close> or more
  is \<^verbatim>\<open>Infinity\<close>. A token count the provider sends is a double too: a natural that
  \<open>to_double\<close> leaves as it is.
\<close>

fun bitlen :: "nat \<Rightarrow> nat" where
  "bitlen n = (if n = 0 then 0 else Suc (bitlen (n div 2)))"

definition round_half_even :: "nat \<Rightarrow> nat \<Rightarrow> nat" where
  "round_half_even e n =
     (let q = n div 2 ^ e; r = n mod 2 ^ e; h = 2 ^ (e - 1)
      in (if r < h \<or> (r = h \<and> even q) then q else q + 1) * 2 ^ e)"

definition round_to :: "nat \<Rightarrow> nat \<Rightarrow> nat" where
  "round_to p n = (if n < 2 ^ p then n else round_half_even (bitlen n - p) n)"

definition to_double :: "nat \<Rightarrow> enat" where
  "to_double n = (let v = round_to 53 n in if v < 2 ^ 1024 then enat v else \<infinity>)"

definition js_add :: "enat \<Rightarrow> enat \<Rightarrow> enat" where
  "js_add x y =
     (case x of
        enat a \<Rightarrow> (case y of enat b \<Rightarrow> to_double (a + b) | \<infinity> \<Rightarrow> \<infinity>)
      | \<infinity> \<Rightarrow> \<infinity>)"

record stats =
  totalRequests :: enat
  promptTokens :: enat
  completionTokens :: enat
  totalTokens :: enat

text \<open>
  References to the stats objects of the module: the module constant \<^verbatim>\<open>_tokenStats\<close>
  and the objects allocated by \<^verbatim>\<open>getTokenStats\<close>, numbered in allocation order.
\<close>

datatype stats_ref = TokenStatsRef | CopyRef nat

text \<open>
  The chat-completion request built by \<^verbatim>\<open>streamAIReply\<close>; \<open>messages\<close> pairs each role
  with its content.
\<close>

record chat_request =
  model :: jsstring
  messages :: "(jsstring \<times> jsstring) list"
  max_tokens :: nat
  temperature :: rat
  stream :: bool
  include_usage :: bool

text \<open>
  The state outside one request: the object bound to \<^verbatim>\<open>_tokenStats\<close>, the copies
  handed out by \<^verbatim>\<open>getTokenStats\<close>, and the requests issued to the model provider so far.
\<close>

record world =
  tokenStats :: stats
  copies :: "stats list"
  upstream_log :: "chat_request list"

definition initial_stats :: stats where
  "initial_stats = \<lparr>totalRequests = 0, promptTokens = 0, completionTokens = 0, totalTokens = 0\<rparr>"

definition initial_world :: world where
  "initial_world = \<lparr>tokenStats = initial_stats, copies = [], upstream_log = []\<rparr>"

text \<open>\<^verbatim>\<open>_recordUsage(usage)\<close>\<close>

fun recordUsage :: "completion_usage option \<Rightarrow> world \<Rightarrow> world" where
  "recordUsage None w = w"
| "recordUsage (Some u) w =
     w\<lparr>tokenStats :=
         \<lparr>totalRequests = js_add (totalRequests (tokenStats w)) (enat 1),
          promptTokens = js_add (promptTokens (tokenStats w)) (enat (or0 (prompt_tokens u))),
          completionTokens =
            js_add (completionTokens (tokenStats w)) (enat (or0 (completion_tokens u))),
          totalTokens = js_add (totalTokens (tokenStats w)) (enat (or0 (total_tokens u)))\<rparr>\<rparr>"

text \<open>
  \<^verbatim>\<open>getTokenStats()\<close> returns \<^verbatim>\<open>{ ..._tokenStats }\<close>: a new object holding the current
  values of the four counters.
\<close>

definition getTokenStats :: "world \<Rightarrow> stats_ref \<times> world" where
  "getTokenStats w = (CopyRef (length (copies w)), w\<lparr>copies := copies w @ [tokenStats w]\<rparr>)"

text \<open>Reading an object through a reference, and an assignment to its fields.\<close>

fun deref :: "stats_ref \<Rightarrow> world \<Rightarrow> stats option" where
  "deref TokenStatsRef w = Some (tokenStats w)"
| "deref (CopyRef i) w = (if i < length (copies w) then Some (copies w ! i) else None)"

fun mutate :: "stats_ref \<Rightarrow> (stats \<Rightarrow> stats) \<Rightarrow> world \<Rightarrow> world" where
  "mutate TokenStatsRef f w = w\<lparr>tokenStats := f (tokenStats w)\<rparr>"
| "mutate (CopyRef i) f w =
     (if i < length (copies w) then w\<lparr>copies := (copies w)[i := f (copies w ! i)]\<rparr> else w)"

section \<open>The response channel\<close>

text \<open>
  The objects the server serialises with \<^verbatim>\<open>JSON.stringify\<close> or \<^verbatim>\<open>res.json\<close>:
  \<^verbatim>\<open>{ chunk: delta }\<close>, \<^verbatim>\<open>{ done: true, usage }\<close>, \<^verbatim>\<open>{ error: msg }\<close> and a stats snapshot.
\<close>

datatype payload =
    ChunkEvent jsstring
  | DoneEvent "completion_usage option"
  | ErrorEvent jsstring
  | StatsObject stats

text \<open>
  What is done to the body of an Express response, in order: \<open>Write p\<close> is
  \<^verbatim>\<open>res.write(`data: ${JSON.stringify(p)}\n\n`)\<close>, one SSE frame; \<open>Json p\<close> is the body sent
  by \<^verbatim>\<open>res.json(p)\<close>; \<open>End\<close> closes the channel.
\<close>

datatype res_op = Write payload | Json payload | End

record response =
  statusCode :: nat
  headers :: "(string \<times> string) list"
  headersSent :: bool
  sent :: "res_op list"
  tokenUsage :: "completion_usage option"

definition new_response :: response where
  "new_response = \<lparr>statusCode = 200, headers = [], headersSent = False, sent = [], tokenUsage = None\<rparr>"

definition setHeader :: "string \<Rightarrow> string \<Rightarrow> response \<Rightarrow> response" where
  "setHeader k v res = res\<lparr>headers := (k, v) # filter (\<lambda>kv. fst kv \<noteq> k) (headers res)\<rparr>"

definition flushHeaders :: "response \<Rightarrow> response" where
  "flushHeaders res = res\<lparr>headersSent := True\<rparr>"

definition res_write :: "payload \<Rightarrow> response \<Rightarrow> response" where
  "res_write p res = res\<lparr>headersSent := True, sent := sent res @ [Write p]\<rparr>"

definition res_end :: "response \<Rightarrow> response" where
  "res_end res = res\<lparr>headersSent := True, sent := sent res @ [End]\<rparr>"

definition res_status :: "nat \<Rightarrow> response \<Rightarrow> response" where
  "res_status code res = res\<lparr>statusCode := code\<rparr>"

definition res_json :: "payload \<Rightarrow> response \<Rightarrow> response" where
  "res_json p res =
     (setHeader ''Content-Type'' ''application/json; charset=utf-8'' res)
       \<lparr>headersSent := True, sent := sent res @ [Json p, End]\<rparr>"

section \<open>The upstream stream\<close>

text \<open>
  A stream chunk as \<^verbatim>\<open>streamAIReply\<close> reads it: \<^verbatim>\<open>chunk.choices[0]?.delta?.content\<close>
  and \<^verbatim>\<open>chunk.usage\<close>; \<open>None\<close> is \<^verbatim>\<open>undefined\<close> or \<^verbatim>\<open>null\<close>.
\<close>

record delta_obj =
  content :: "jsstring option"

record choice =
  delta :: "delta_obj option"

record chunk =
  choices :: "choice list"
  usage :: "completion_usage option"

text \<open>
  What \<^verbatim>\<open>await openai.chat.completions.create(...)\<close> does: the promise rejects, or it
  yields a stream that produces finitely many chunks and then either completes (\<open>None\<close>)
  or throws.
\<close>

datatype completion = Rejects js_error | Yields "chunk list" "js_error option"

text \<open>
  The module's configuration: the system prompt constant \<^verbatim>\<open>OWNER_CONTEXT\<close> (its text is
  left open: no property depends on it), the \<^verbatim>\<open>OPENAI_MODEL\<close> environment variable, and
  the model provider behind the SDK client, which answers each request it is sent.
\<close>

record env =
  OWNER_CONTEXT :: jsstring
  OPENAI_MODEL :: "jsstring option"
  create :: "chat_request \<Rightarrow> completion"

text \<open>\<^verbatim>\<open>process.env.OPENAI_MODEL || "gpt-4o-mini"\<close>\<close>

definition model_name :: "env \<Rightarrow> jsstring" where
  "model_name e =
     (case OPENAI_MODEL e of
        None \<Rightarrow> js ''gpt-4o-mini''
      | Some m \<Rightarrow> if m \<noteq> [] then m else js ''gpt-4o-mini'')"

definition chat_completion_request :: "env \<Rightarrow> jsstring \<Rightarrow> chat_request" where
  "chat_completion_request e userMessage =
     \<lparr>model = model_name e,
      messages = [(js ''system'', OWNER_CONTEXT e), (js ''user'', userMessage)],
      max_tokens = 512,
      temperature = 7 / 10,
      stream = True,
      include_usage = True\<rparr>"

text \<open>\<^verbatim>\<open>chunk.choices[0]?.delta?.content\<close>\<close>

definition delta_content :: "chunk \<Rightarrow> jsstring option" where
  "delta_content c =
     (case choices c of
        [] \<Rightarrow> None
      | ch # rest \<Rightarrow> (case delta ch of None \<Rightarrow> None | Some d \<Rightarrow> content d))"

text \<open>
  The body of the \<^verbatim>\<open>for await\<close> loop, run over the chunks the stream produces; \<open>u\<close> is
  the local variable \<^verbatim>\<open>usage\<close>.
\<close>

fun forward :: "chunk list \<Rightarrow> completion_usage option \<Rightarrow> response
    \<Rightarrow> completion_usage option \<times> response" where
  "forward [] u res = (u, res)"
| "forward (c # cs) u res =
     forward cs
       (case usage c of Some x \<Rightarrow> Some x | None \<Rightarrow> u)
       (case delta_content c of
          None \<Rightarrow> res
        | Some d \<Rightarrow> if d \<noteq> [] then res_write (ChunkEvent d) res else res)"

text \<open>
  \<^verbatim>\<open>streamAIReply(userMessage, res)\<close>. \<open>Inl e\<close> is the exception that leaves the function,
  with the world and the response as they are at that moment; \<open>Inr u\<close> is the value
  returned.
\<close>

definition streamAIReply :: "env \<Rightarrow> jsstring \<Rightarrow> world \<Rightarrow> response
    \<Rightarrow> (js_error + completion_usage option) \<times> world \<times> response" where
  "streamAIReply e userMessage w res =
     (let req = chat_completion_request e userMessage;
          w1 = w\<lparr>upstream_log := upstream_log w @ [req]\<rparr>
      in case create e req of
           Rejects err \<Rightarrow> (Inl err, w1, res)
         | Yields cs thrown \<Rightarrow>
             (case forward cs None res of
                (u, res1) \<Rightarrow>
                  (case thrown of
                     Some err \<Rightarrow> (Inl err, w1, res1)
                   | None \<Rightarrow> (Inr u, recordUsage u w1, res_end (res_write (DoneEvent u) res1)))))"

section \<open>The chat controller and the error middleware\<close>

text \<open>The three errors the validation passes to \<^verbatim>\<open>next\<close>.\<close>

definition err_no_message :: js_error where
  \<open>err_no_message = new_Error (js ''Request body must include a "message" string.'') 400\<close>

definition err_blank :: js_error where
  \<open>err_blank = new_Error (js ''"message" must not be blank.'') 400\<close>

definition err_too_long :: js_error where
  \<open>err_too_long = new_Error (js ''"message" must be 1000 characters or fewer.'') 400\<close>

text \<open>
  The \<^verbatim>\<open>catch\<close> block of \<^verbatim>\<open>handleChat\<close>. The last component of the result is the
  argument of \<^verbatim>\<open>next\<close>, if \<^verbatim>\<open>next\<close> is called.
\<close>

definition handleChat_catch :: "js_error \<Rightarrow> world \<Rightarrow> response
    \<Rightarrow> world \<times> response \<times> js_error option" where
  "handleChat_catch err w res =
     (if headersSent res
      then (w, res_end (res_write (ErrorEvent (js ''Stream error occurred.'')) res), None)
      else (w, res, Some err))"

text \<open>
  The four \<^verbatim>\<open>res.setHeader\<close> calls of \<^verbatim>\<open>handleChat\<close> and its \<^verbatim>\<open>res.flushHeaders()\<close>.
\<close>

definition flush_sse_headers :: "response \<Rightarrow> response" where
  "flush_sse_headers res =
     flushHeaders
       (setHeader ''X-Accel-Buffering'' ''no''
         (setHeader ''Connection'' ''keep-alive''
           (setHeader ''Cache-Control'' ''no-cache''
             (setHeader ''Content-Type'' ''text/event-stream'' res))))"

text \<open>
  \<^verbatim>\<open>handleChat(req, res, next)\<close> with \<^verbatim>\<open>req.body = body\<close>. The assignment to
  \<^verbatim>\<open>res.locals.tokenUsage\<close> is the update of \<open>tokenUsage\<close>.
\<close>

definition handleChat :: "env \<Rightarrow> req_body \<Rightarrow> world \<Rightarrow> response
    \<Rightarrow> world \<times> response \<times> js_error option" where
  "handleChat e body w res =
     (let message = body_message body in
      if \<not> truthy message \<or> typeof message \<noteq> ''string'' then (w, res, Some err_no_message)
      else
        let trimmed = trim (string_of message) in
        if length trimmed = 0 then (w, res, Some err_blank)
        else if length trimmed > 1000 then (w, res, Some err_too_long)
        else
          case streamAIReply e trimmed w (flush_sse_headers res) of
            (Inr u, w2, res2) \<Rightarrow> (w2, res2\<lparr>tokenUsage := u\<rparr>, None)
          | (Inl err, w2, res2) \<Rightarrow> handleChat_catch err w2 res2)"

text \<open>\<^verbatim>\<open>err.statusCode || err.status || 500\<close>\<close>

definition error_status :: "js_error \<Rightarrow> nat" where
  "error_status err =
     (case err_statusCode err of
        Some c \<Rightarrow> if c \<noteq> 0 then c else (case err_status err of Some s \<Rightarrow> if s \<noteq> 0 then s else 500 | None \<Rightarrow> 500)
      | None \<Rightarrow> (case err_status err of Some s \<Rightarrow> if s \<noteq> 0 then s else 500 | None \<Rightarrow> 500))"

text \<open>\<^verbatim>\<open>errorMiddleware(err, req, res, next)\<close>; the console output is not modelled.\<close>

definition errorMiddleware :: "js_error \<Rightarrow> response \<Rightarrow> response" where
  "errorMiddleware err res =
     res_json
       (ErrorEvent (if err_message err \<noteq> [] then err_message err else js ''Internal server error''))
       (res_status (error_status err) res)"

text \<open>
  \<^verbatim>\<open>POST /api/chat\<close> as the client sees it: \<^verbatim>\<open>handleChat\<close> on a fresh response, and the
  central error handler when \<^verbatim>\<open>next\<close> was called with an error.
\<close>

definition post_chat :: "env \<Rightarrow> req_body \<Rightarrow> world \<Rightarrow> world \<times> response" where
  "post_chat e body w =
     (case handleChat e body w new_response of
        (w', res, None) \<Rightarrow> (w', res)
      | (w', res, Some err) \<Rightarrow> (w', errorMiddleware err res))"

text \<open>\<^verbatim>\<open>GET /api/stats\<close>: \<^verbatim>\<open>res.json(getTokenStats())\<close>.\<close>

definition get_stats :: "world \<Rightarrow> world \<times> response" where
  "get_stats w =
     (case getTokenStats w of
        (r, w') \<Rightarrow> (w', (case deref r w' of Some s \<Rightarrow> res_json (StatsObject s) new_response
                                          | None \<Rightarrow> new_response)))"

section \<open>The process\<close>




section \<open>Vocabulary of the properties\<close>

text \<open>The summaries that are present in a sequence of \<^verbatim>\<open>_recordUsage\<close> arguments.\<close>

fun recorded :: "completion_usage option list \<Rightarrow> completion_usage list" where
  "recorded [] = []"
| "recorded (None # us) = recorded us"
| "recorded (Some u # us) = u # recorded us"

text \<open>
  The non-empty text fragments a sequence of chunks carries, in arrival order, and the
  usage summary the stream supplied: the last one that is present.
\<close>

definition fragments :: "chunk list \<Rightarrow> jsstring list" where
  "fragments cs = filter (\<lambda>d. d \<noteq> []) (List.map_filter delta_content cs)"

definition captured :: "chunk list \<Rightarrow> completion_usage option" where
  "captured cs = (case recorded (map usage cs) of [] \<Rightarrow> None | u # us \<Rightarrow> Some (last (u # us)))"

text \<open>A response carries a terminal \<^verbatim>\<open>done\<close> frame.\<close>

fun is_done :: "res_op \<Rightarrow> bool" where
  "is_done (Write (DoneEvent u)) = True"
| "is_done op = False"

definition completed :: "response \<Rightarrow> bool" where
  "completed res = list_ex is_done (sent res)"






text \<open>
  The scenario of the specification: the body \<^verbatim>\<open>{"message":"hello"}\<close>, and a provider
  that produces the fragments \<^verbatim>\<open>"Hi"\<close> and \<^verbatim>\<open>" there"\<close> and then a chunk with no choices
  that carries the usage summary (5, 3, 8).
\<close>

definition text_chunk :: "jsstring \<Rightarrow> chunk" where
  "text_chunk d = \<lparr>choices = [\<lparr>delta = Some \<lparr>content = Some d\<rparr>\<rparr>], usage = None\<rparr>"

definition usage_538 :: completion_usage where
  "usage_538 = \<lparr>prompt_tokens = Some 5, completion_tokens = Some 3, total_tokens = Some 8\<rparr>"

definition usage_chunk :: "completion_usage \<Rightarrow> chunk" where
  "usage_chunk u = \<lparr>choices = [], usage = Some u\<rparr>"

definition hello_chunks :: "chunk list" where
  "hello_chunks = [text_chunk (js ''Hi''), text_chunk (js '' there''), usage_chunk usage_538]"

definition provider_env :: "completion \<Rightarrow> env" where
  "provider_env c = \<lparr>OWNER_CONTEXT = js ''You are an AI assistant'', OPENAI_MODEL = None, create = (\<lambda>req. c)\<rparr>"

definition message_body :: "jsstring \<Rightarrow> req_body" where
  "message_body m = ObjectBody [(js ''message'', JStr m)]"



text \<open>Two errors the SDK can raise: an API error carrying an HTTP \<^verbatim>\<open>status\<close>, and a connection error.\<close>

definition api_error_429 :: js_error where
  "api_error_429 = \<lparr>err_statusCode = None, err_status = Some 429, err_message = js ''Rate limit exceeded''\<rparr>"

definition connection_error :: js_error where
  "connection_error = \<lparr>err_statusCode = None, err_status = None, err_message = js ''Connection error.''\<rparr>"

section \<open>Trimming\<close>

lemma all_dropWhile: "(\<forall>x\<in>set (dropWhile P s). P x) \<longleftrightarrow> (\<forall>x\<in>set s. P x)"
  by (induction s) auto

lemma trim_eq_Nil: "trim s = [] \<longleftrightarrow> list_all isWhiteSpace s"
  by (simp add: trim_def list_all_iff all_dropWhile)

lemma trim_surrounding:
  assumes "list_all isWhiteSpace pre" "list_all isWhiteSpace post"
  shows "trim (pre @ s @ post) = trim s"
proof -
  have a: "dropWhile isWhiteSpace (pre @ s @ post) = dropWhile isWhiteSpace (s @ post)"
    using assms(1) by (simp add: list_all_iff)
  show ?thesis
  proof (cases "list_all isWhiteSpace s")
    case True
    then have "list_all isWhiteSpace (pre @ s @ post)" using assms by simp
    then have "trim (pre @ s @ post) = []" by (simp only: trim_eq_Nil)
    moreover have "trim s = []" using True by (simp only: trim_eq_Nil)
    ultimately show ?thesis by simp
  next
    case False
    then have ne: "dropWhile isWhiteSpace s \<noteq> []"
      by (simp add: list_all_iff)
    from False obtain x where "x \<in> set s" "\<not> isWhiteSpace x"
      by (auto simp: list_all_iff)
    then have "dropWhile isWhiteSpace (s @ post) = dropWhile isWhiteSpace s @ post"
      by (rule dropWhile_append1)
    then have "rev (dropWhile isWhiteSpace (pre @ s @ post)) = rev post @ rev (dropWhile isWhiteSpace s)"
      using a by simp
    moreover have "dropWhile isWhiteSpace (rev post @ rev (dropWhile isWhiteSpace s))
        = dropWhile isWhiteSpace (rev (dropWhile isWhiteSpace s))"
      using assms(2) by (intro dropWhile_append2) (simp add: list_all_iff)
    ultimately show ?thesis by (simp add: trim_def)
  qed
qed

lemma trim_unchanged:
  assumes "s \<noteq> []" "\<not> isWhiteSpace (hd s)" "\<not> isWhiteSpace (last s)"
  shows "trim s = s"
proof -
  have "dropWhile isWhiteSpace s = s" using assms(1,2) by (cases s) simp_all
  moreover have "dropWhile isWhiteSpace (rev s) = rev s"
    using assms(1,3) by (cases "rev s") (simp_all add: hd_rev [symmetric])
  ultimately show ?thesis by (simp add: trim_def)
qed

lemma trim_replicate_a: "0 < n \<Longrightarrow> trim (replicate n (0x61 :: 16 word)) = replicate n 0x61"
  by (rule trim_unchanged) (simp_all add: isWhiteSpace_def)

section \<open>The forwarding loop and the controller, case by case\<close>

lemma forward_eq:
  "forward cs u res =
     (case recorded (map usage cs) of [] \<Rightarrow> u | x # xs \<Rightarrow> Some (last (x # xs)),
      if fragments cs = [] then res
      else res\<lparr>headersSent := True, sent := sent res @ map (\<lambda>d. Write (ChunkEvent d)) (fragments cs)\<rparr>)"
proof (induction cs arbitrary: u res)
  case Nil
  show ?case by (simp add: fragments_def)
next
  case (Cons c cs)
  show ?case
    apply (simp add: Cons.IH)
    apply (auto simp: fragments_def res_write_def split: option.splits list.splits)
    done
qed

lemma forward_captured: "fst (forward cs None res) = captured cs"
  by (simp add: forward_eq captured_def)

lemma forward_sent:
  "sent (snd (forward cs u res)) = sent res @ map (\<lambda>d. Write (ChunkEvent d)) (fragments cs)"
  by (simp add: forward_eq)

lemma forward_flushed:
  "headersSent res \<Longrightarrow>
   forward cs None res =
     (captured cs, res\<lparr>sent := sent res @ map (\<lambda>d. Write (ChunkEvent d)) (fragments cs)\<rparr>)"
  by (cases res) (simp add: forward_eq captured_def)

lemma headersSent_flush [simp]: "headersSent (flush_sse_headers res)"
  by (simp add: flush_sse_headers_def flushHeaders_def)

lemma sent_flush [simp]: "sent (flush_sse_headers res) = sent res"
  by (simp add: flush_sse_headers_def flushHeaders_def setHeader_def)

lemma statusCode_flush [simp]: "statusCode (flush_sse_headers res) = statusCode res"
  by (simp add: flush_sse_headers_def flushHeaders_def setHeader_def)

lemma streamAIReply_completes:
  assumes "create e (chat_completion_request e m) = Yields cs None" "headersSent res"
  shows "streamAIReply e m w res =
     (Inr (captured cs),
      recordUsage (captured cs) (w\<lparr>upstream_log := upstream_log w @ [chat_completion_request e m]\<rparr>),
      res\<lparr>sent := sent res @ map (\<lambda>d. Write (ChunkEvent d)) (fragments cs)
                 @ [Write (DoneEvent (captured cs)), End]\<rparr>)"
  using assms by (cases res) (simp add: streamAIReply_def forward_flushed res_end_def res_write_def)

lemma streamAIReply_rejects:
  assumes "create e (chat_completion_request e m) = Rejects err"
  shows "streamAIReply e m w res =
     (Inl err, w\<lparr>upstream_log := upstream_log w @ [chat_completion_request e m]\<rparr>, res)"
  using assms by (simp add: streamAIReply_def)

lemma streamAIReply_throws:
  assumes "create e (chat_completion_request e m) = Yields cs (Some err)" "headersSent res"
  shows "streamAIReply e m w res =
     (Inl err, w\<lparr>upstream_log := upstream_log w @ [chat_completion_request e m]\<rparr>,
      res\<lparr>sent := sent res @ map (\<lambda>d. Write (ChunkEvent d)) (fragments cs)\<rparr>)"
  using assms by (simp add: streamAIReply_def forward_flushed)

lemma handleChat_accepts:
  assumes "body_message body = Some (JStr m)" "trim m \<noteq> []" "length (trim m) \<le> 1000"
  shows "handleChat e body w res =
     (case streamAIReply e (trim m) w (flush_sse_headers res) of
        (Inr u, w2, res2) \<Rightarrow> (w2, res2\<lparr>tokenUsage := u\<rparr>, None)
      | (Inl err, w2, res2) \<Rightarrow> handleChat_catch err w2 res2)"
proof -
  have "m \<noteq> []" using assms(2) by (auto simp: trim_def)
  then show ?thesis using assms by (simp add: handleChat_def)
qed

lemma handleChat_completes:
  assumes "body_message body = Some (JStr m)" "trim m \<noteq> []" "length (trim m) \<le> 1000"
    and "create e (chat_completion_request e (trim m)) = Yields cs None"
  shows "handleChat e body w res =
     (recordUsage (captured cs) (w\<lparr>upstream_log := upstream_log w @ [chat_completion_request e (trim m)]\<rparr>),
      (flush_sse_headers res)\<lparr>sent := sent res @ map (\<lambda>d. Write (ChunkEvent d)) (fragments cs)
                 @ [Write (DoneEvent (captured cs)), End], tokenUsage := captured cs\<rparr>, None)"
  using assms by (simp add: handleChat_accepts streamAIReply_completes)

lemma handleChat_rejected:
  assumes "body_message body = Some (JStr m)" "trim m \<noteq> []" "length (trim m) \<le> 1000"
    and "create e (chat_completion_request e (trim m)) = Rejects err"
  shows "handleChat e body w res =
     (w\<lparr>upstream_log := upstream_log w @ [chat_completion_request e (trim m)]\<rparr>,
      (flush_sse_headers res)\<lparr>sent := sent res @ [Write (ErrorEvent (js ''Stream error occurred.'')), End]\<rparr>, None)"
  using assms
  by (simp add: handleChat_accepts streamAIReply_rejects handleChat_catch_def res_end_def res_write_def)

lemma handleChat_thrown:
  assumes "body_message body = Some (JStr m)" "trim m \<noteq> []" "length (trim m) \<le> 1000"
    and "create e (chat_completion_request e (trim m)) = Yields cs (Some err)"
  shows "handleChat e body w res =
     (w\<lparr>upstream_log := upstream_log w @ [chat_completion_request e (trim m)]\<rparr>,
      (flush_sse_headers res)\<lparr>sent := sent res @ map (\<lambda>d. Write (ChunkEvent d)) (fragments cs)
         @ [Write (ErrorEvent (js ''Stream error occurred.'')), End]\<rparr>, None)"
  using assms
  by (simp add: handleChat_accepts streamAIReply_throws handleChat_catch_def res_end_def res_write_def)

lemma handleChat_cases:
  "(\<exists>m. body_message body = Some (JStr m) \<and> trim m \<noteq> [] \<and> length (trim m) \<le> 1000) \<or>
   (\<exists>err. handleChat e body w res = (w, res, Some err) \<and> err_statusCode err = Some 400)"
  by (cases "body_message body" rule: truthy.cases)
     (auto simp: handleChat_def Let_def err_no_message_def err_blank_def err_too_long_def new_Error_def)

lemma upstream_log_recordUsage [simp]: "upstream_log (recordUsage u w) = upstream_log w"
  by (cases u) simp_all

lemma tokenStats_recordUsage_log:
  "tokenStats (recordUsage u (w\<lparr>upstream_log := l\<rparr>)) = tokenStats (recordUsage u w)"
  by (cases u) simp_all

lemma handleChat_proceeds:
  assumes "body_message body = Some (JStr m)" "trim m \<noteq> []" "length (trim m) \<le> 1000"
  shows "snd (snd (handleChat e body w res)) = None
       \<and> headersSent (fst (snd (handleChat e body w res)))
       \<and> upstream_log (fst (handleChat e body w res))
           = upstream_log w @ [chat_completion_request e (trim m)]"
proof (cases "create e (chat_completion_request e (trim m))")
  case (Rejects err)
  show ?thesis by (simp add: handleChat_rejected [OF assms Rejects])
next
  case (Yields cs thrown)
  show ?thesis
  proof (cases thrown)
    case None
    with Yields have "create e (chat_completion_request e (trim m)) = Yields cs None" by simp
    from handleChat_completes [OF assms this] show ?thesis by simp
  next
    case (Some err)
    with Yields have "create e (chat_completion_request e (trim m)) = Yields cs (Some err)" by simp
    from handleChat_thrown [OF assms this] show ?thesis by simp
  qed
qed

lemma errorMiddleware_new_response:
  "errorMiddleware err new_response =
     \<lparr>statusCode = error_status err,
      headers = [(''Content-Type'', ''application/json; charset=utf-8'')],
      headersSent = True,
      sent = [Json (ErrorEvent (if err_message err \<noteq> [] then err_message err
                                else js ''Internal server error'')), End],
      tokenUsage = None\<rparr>"
  by (simp add: errorMiddleware_def res_json_def res_status_def setHeader_def new_response_def)

lemma post_chat_next:
  "handleChat e body w new_response = (w', res, Some err) \<Longrightarrow>
   post_chat e body w = (w', errorMiddleware err res)"
  by (simp add: post_chat_def)

lemma post_chat_no_next:
  "handleChat e body w new_response = (w', res, None) \<Longrightarrow> post_chat e body w = (w', res)"
  by (simp add: post_chat_def)

lemma hello_fragments: "fragments hello_chunks = [js ''Hi'', js '' there'']"
  by (simp add: fragments_def hello_chunks_def text_chunk_def usage_chunk_def delta_content_def
      js_def)

lemma hello_captured: "captured hello_chunks = Some usage_538"
  by (simp add: captured_def hello_chunks_def text_chunk_def usage_chunk_def)

lemma trim_hello: "trim (js ''hello'') = js ''hello''"
  by (simp add: trim_def js_def isWhiteSpace_def)

lemma json_error_response:
  "err_message err \<noteq> [] \<Longrightarrow> error_status err = code \<Longrightarrow>
   handleChat e body w new_response = (w, new_response, Some err) \<Longrightarrow>
   post_chat e body w =
     (w, \<lparr>statusCode = code,
          headers = [(''Content-Type'', ''application/json; charset=utf-8'')],
          headersSent = True,
          sent = [Json (ErrorEvent (err_message err)), End],
          tokenUsage = None\<rparr>)"
  by (simp add: post_chat_def errorMiddleware_new_response)

lemma err_no_message_simps:
  \<open>err_statusCode err_no_message = Some 400\<close>
  \<open>err_message err_no_message = js ''Request body must include a "message" string.''\<close>
  \<open>err_message err_no_message \<noteq> []\<close>
  \<open>error_status err_no_message = 400\<close>
  by (simp_all add: err_no_message_def new_Error_def error_status_def js_def)

lemma err_blank_simps:
  \<open>err_statusCode err_blank = Some 400\<close>
  \<open>err_message err_blank = js ''"message" must not be blank.''\<close>
  \<open>err_message err_blank \<noteq> []\<close>
  \<open>error_status err_blank = 400\<close>
  by (simp_all add: err_blank_def new_Error_def error_status_def js_def)

lemma err_too_long_simps:
  \<open>err_statusCode err_too_long = Some 400\<close>
  \<open>err_message err_too_long = js ''"message" must be 1000 characters or fewer.''\<close>
  \<open>err_message err_too_long \<noteq> []\<close>
  \<open>error_status err_too_long = 400\<close>
  by (simp_all add: err_too_long_def new_Error_def error_status_def js_def)

lemma error_phrases:
  \<open>err_message err_no_message = js ''Request body '' @ js ''must include a "message" string'' @ js ''.''\<close>
  \<open>err_message err_blank = js ''"message" '' @ js ''must not be blank'' @ js ''.''\<close>
  \<open>err_message err_too_long = js ''"message" '' @ js ''must be 1000 characters or fewer'' @ js ''.''\<close>
  by (simp_all add: err_no_message_def err_blank_def err_too_long_def new_Error_def js_def)

lemma handleChat_no_string:
  "typeof (body_message body) \<noteq> ''string'' \<Longrightarrow>
   handleChat e body w res = (w, res, Some err_no_message)"
  by (simp add: handleChat_def)

lemma handleChat_falsy:
  "\<not> truthy (body_message body) \<Longrightarrow> handleChat e body w res = (w, res, Some err_no_message)"
  by (simp add: handleChat_def)

lemma handleChat_blank:
  "body_message body = Some (JStr s) \<Longrightarrow> s \<noteq> [] \<Longrightarrow> trim s = [] \<Longrightarrow>
   handleChat e body w res = (w, res, Some err_blank)"
  by (simp add: handleChat_def)

lemma handleChat_too_long:
  assumes "body_message body = Some (JStr s)" "1000 < length (trim s)"
  shows "handleChat e body w res = (w, res, Some err_too_long)"
proof -
  have t: "trim s \<noteq> []" using assms(2) by auto
  then have "s \<noteq> []" by (auto simp: trim_def)
  with t assms show ?thesis by (simp add: handleChat_def)
qed

lemma js_eq_Nil [simp]: "js s = [] \<longleftrightarrow> s = []"
  by (simp add: js_def)

lemma new_response_simps [simp]:
  "sent new_response = []" "\<not> headersSent new_response" "statusCode new_response = 200"
  by (simp_all add: new_response_def)

lemma sse_response:
  "flush_sse_headers new_response =
     \<lparr>statusCode = 200,
      headers = [(''X-Accel-Buffering'', ''no''), (''Connection'', ''keep-alive''),
                 (''Cache-Control'', ''no-cache''), (''Content-Type'', ''text/event-stream'')],
      headersSent = True, sent = [], tokenUsage = None\<rparr>"
  by (simp add: flush_sse_headers_def flushHeaders_def setHeader_def new_response_def)

lemma catch_after_headers:
  "headersSent res \<Longrightarrow>
   handleChat_catch err w res =
     (w, res\<lparr>sent := sent res @ [Write (ErrorEvent (js ''Stream error occurred.'')), End]\<rparr>, None)"
  by (cases res) (simp add: handleChat_catch_def res_end_def res_write_def)

lemma catch_before_headers:
  "\<not> headersSent res \<Longrightarrow> handleChat_catch err w res = (w, res, Some err)"
  by (simp add: handleChat_catch_def)

lemma sent_errorMiddleware:
  "sent (errorMiddleware err res) =
     sent res @ [Json (ErrorEvent (if err_message err \<noteq> [] then err_message err
                                  else js ''Internal server error'')), End]"
  by (simp add: errorMiddleware_def res_json_def res_status_def setHeader_def)

lemma statusCode_errorMiddleware: "statusCode (errorMiddleware err res) = error_status err"
  by (simp add: errorMiddleware_def res_json_def res_status_def setHeader_def)

lemma handleChat_next:
  assumes "snd (snd (handleChat e body w res)) = Some err"
  shows "handleChat e body w res = (w, res, Some err)"
proof -
  consider (valid) m where "body_message body = Some (JStr m)" "trim m \<noteq> []" "length (trim m) \<le> 1000"
    | (invalid) err' where "handleChat e body w res = (w, res, Some err')"
    using handleChat_cases [of body e w res] by blast
  then show ?thesis
  proof cases
    case valid
    from handleChat_proceeds [OF valid, of e w res] assms show ?thesis by simp
  next
    case invalid
    with assms show ?thesis by simp
  qed
qed

lemma fst_post_chat: "fst (post_chat e body w) = fst (handleChat e body w new_response)"
  by (simp add: post_chat_def split: prod.splits option.splits)

lemma trim_padded_hello: "trim (js ''  hello '') = js ''hello''"
  by (simp add: trim_def js_def isWhiteSpace_def)

section \<open>The usage accumulator\<close>

text \<open>
  Claim C9. \<^verbatim>\<open>getTokenStats\<close> leaves \<^verbatim>\<open>_tokenStats\<close> as it is and returns a new object
  holding its values; two snapshots in a row, and the two \<^verbatim>\<open>GET /api/stats\<close> responses,
  are identical; the returned reference is not \<^verbatim>\<open>_tokenStats\<close>, so an assignment \<open>f\<close> to the
  returned object changes neither the counters nor what the next snapshot reports.
\<close>

theorem snapshot_does_not_mutate:
  "tokenStats (snd (getTokenStats w)) = tokenStats w \<and>
   deref (fst (getTokenStats w)) (snd (getTokenStats w)) = Some (tokenStats w) \<and>
   deref (fst (getTokenStats (snd (getTokenStats w)))) (snd (getTokenStats (snd (getTokenStats w))))
     = deref (fst (getTokenStats w)) (snd (getTokenStats w)) \<and>
   snd (get_stats (fst (get_stats w))) = snd (get_stats w) \<and>
   fst (getTokenStats w) \<noteq> TokenStatsRef \<and>
   tokenStats (mutate (fst (getTokenStats w)) f (snd (getTokenStats w))) = tokenStats w \<and>
   snd (get_stats (mutate (fst (getTokenStats w)) f (snd (getTokenStats w)))) = snd (get_stats w)"
  by (simp add: getTokenStats_def get_stats_def nth_append)

section \<open>The relay\<close>

text \<open>
  Claim C1. When the provider's stream completes without an error, \<^verbatim>\<open>streamAIReply\<close>
  appends to the channel one \<^verbatim>\<open>chunk\<close> frame for each non-empty fragment of the stream, in
  arrival order, then the one \<^verbatim>\<open>done\<close> frame with the captured usage summary (or null),
  then closes the channel; nothing follows. For a request that passes validation this
  is everything the response carries.
\<close>

theorem relay_frames_in_order:
  assumes "create e (chat_completion_request e m) = Yields cs None"
  shows "sent (snd (snd (streamAIReply e m w res))) =
           sent res @ map (\<lambda>d. Write (ChunkEvent d)) (fragments cs)
             @ [Write (DoneEvent (captured cs)), End]
         \<and> (body_message body = Some (JStr s) \<and> trim s = m \<and> m \<noteq> [] \<and> length m \<le> 1000 \<longrightarrow>
              sent (snd (post_chat e body w)) =
                map (\<lambda>d. Write (ChunkEvent d)) (fragments cs) @ [Write (DoneEvent (captured cs)), End])"
proof
  show "sent (snd (snd (streamAIReply e m w res))) =
           sent res @ map (\<lambda>d. Write (ChunkEvent d)) (fragments cs)
             @ [Write (DoneEvent (captured cs)), End]"
    using assms
    by (simp add: streamAIReply_def split_beta forward_sent forward_captured res_end_def res_write_def)
next
  show "body_message body = Some (JStr s) \<and> trim s = m \<and> m \<noteq> [] \<and> length m \<le> 1000 \<longrightarrow>
              sent (snd (post_chat e body w)) =
                map (\<lambda>d. Write (ChunkEvent d)) (fragments cs) @ [Write (DoneEvent (captured cs)), End]"
  proof
    assume a: "body_message body = Some (JStr s) \<and> trim s = m \<and> m \<noteq> [] \<and> length m \<le> 1000"
    then have "handleChat e body w new_response =
     (recordUsage (captured cs) (w\<lparr>upstream_log := upstream_log w @ [chat_completion_request e (trim s)]\<rparr>),
      (flush_sse_headers new_response)\<lparr>sent := sent new_response @ map (\<lambda>d. Write (ChunkEvent d)) (fragments cs)
                 @ [Write (DoneEvent (captured cs)), End], tokenUsage := captured cs\<rparr>, None)"
      using assms by (intro handleChat_completes) auto
    then show "sent (snd (post_chat e body w)) =
                map (\<lambda>d. Write (ChunkEvent d)) (fragments cs) @ [Write (DoneEvent (captured cs)), End]"
      by (simp add: post_chat_def new_response_def)
  qed
qed

theorem relay_frames_in_order_witness:
  "create (provider_env (Yields hello_chunks None))
      (chat_completion_request (provider_env (Yields hello_chunks None)) (js ''hello''))
     = Yields hello_chunks None
   \<and> body_message (message_body (js ''hello'')) = Some (JStr (js ''hello''))
   \<and> trim (js ''hello'') = js ''hello'' \<and> js ''hello'' \<noteq> [] \<and> length (js ''hello'') \<le> 1000
   \<and> sent (snd (post_chat (provider_env (Yields hello_chunks None)) (message_body (js ''hello'')) initial_world))
       = [Write (ChunkEvent (js ''Hi'')), Write (ChunkEvent (js '' there'')),
          Write (DoneEvent (Some usage_538)), End]"
proof -
  have h: "create (provider_env (Yields hello_chunks None))
      (chat_completion_request (provider_env (Yields hello_chunks None)) (js ''hello''))
     = Yields hello_chunks None"
    by (simp add: provider_env_def)
  have b: "body_message (message_body (js ''hello'')) = Some (JStr (js ''hello''))
     \<and> trim (js ''hello'') = js ''hello'' \<and> js ''hello'' \<noteq> [] \<and> length (js ''hello'') \<le> 1000"
    by (simp add: message_body_def trim_hello) (simp add: js_def)
  show ?thesis
    using h b relay_frames_in_order [OF h, where body = "message_body (js ''hello'')" and s = "js ''hello''" and w = initial_world]
    by (simp add: hello_fragments hello_captured)
qed

text \<open>
  Claim C3. When \<^verbatim>\<open>handleChat\<close> hands an error to \<^verbatim>\<open>next\<close> (a validation failure), or
  the provider call rejects, or the stream throws after any chunks (with or without a
  usage summary among them), the counters are what they were. In every run the counters
  are either unchanged or the result of one \<^verbatim>\<open>_recordUsage\<close> of the summary captured by a
  stream that completed.
\<close>

theorem failed_relay_keeps_counters:
  "((snd (snd (handleChat e body w res)) \<noteq> None
      \<or> create e (chat_completion_request e (trim (string_of (body_message body)))) = Rejects err
      \<or> create e (chat_completion_request e (trim (string_of (body_message body)))) = Yields cs (Some err))
     \<longrightarrow> tokenStats (fst (handleChat e body w res)) = tokenStats w)
   \<and> (tokenStats (fst (handleChat e body w res)) = tokenStats w
      \<or> (\<exists>cs' u. create e (chat_completion_request e (trim (string_of (body_message body)))) = Yields cs' None
              \<and> captured cs' = Some u
              \<and> tokenStats (fst (handleChat e body w res)) = tokenStats (recordUsage (Some u) w)))"
proof -
  consider (valid) m where "body_message body = Some (JStr m)" "trim m \<noteq> []" "length (trim m) \<le> 1000"
    | (invalid) err' where "handleChat e body w res = (w, res, Some err')"
    using handleChat_cases [of body e w res] by blast
  then show ?thesis
  proof cases
    case invalid
    then show ?thesis by simp
  next
    case valid
    note v = valid
    have nxt: "snd (snd (handleChat e body w res)) = None"
      using handleChat_proceeds [OF v] by simp
    show ?thesis
    proof (cases "create e (chat_completion_request e (trim m))")
      case (Rejects err1)
      from handleChat_rejected [OF v Rejects] show ?thesis by simp
    next
      case (Yields cs1 thrown)
      show ?thesis
      proof (cases thrown)
        case (Some err1)
        with Yields have "create e (chat_completion_request e (trim m)) = Yields cs1 (Some err1)" by simp
        from handleChat_thrown [OF v this] show ?thesis by simp
      next
        case None
        with Yields have y: "create e (chat_completion_request e (trim m)) = Yields cs1 None" by simp
        have t: "tokenStats (fst (handleChat e body w res)) = tokenStats (recordUsage (captured cs1) w)"
          using handleChat_completes [OF v y] by (simp add: tokenStats_recordUsage_log)
        show ?thesis
        proof (cases "captured cs1")
          case None
          with t show ?thesis by simp
        next
          case (Some u)
          with t y v(1) nxt show ?thesis by auto
        qed
      qed
    qed
  qed
qed

theorem failed_relay_keeps_counters_witness:
  "create (provider_env (Yields hello_chunks (Some connection_error)))
      (chat_completion_request (provider_env (Yields hello_chunks (Some connection_error)))
         (trim (string_of (body_message (message_body (js ''hello''))))))
     = Yields hello_chunks (Some connection_error)
   \<and> tokenStats (fst (handleChat (provider_env (Yields hello_chunks (Some connection_error)))
         (message_body (js ''hello'')) initial_world new_response)) = initial_stats
   \<and> snd (snd (handleChat (provider_env (Yields hello_chunks None))
         (message_body (js ''   '')) initial_world new_response)) \<noteq> None
   \<and> tokenStats (fst (handleChat (provider_env (Yields hello_chunks None))
         (message_body (js ''   '')) initial_world new_response)) = initial_stats"
proof -
  have a: "create (provider_env (Yields hello_chunks (Some connection_error)))
      (chat_completion_request (provider_env (Yields hello_chunks (Some connection_error)))
         (trim (string_of (body_message (message_body (js ''hello''))))))
     = Yields hello_chunks (Some connection_error)"
    by (simp add: provider_env_def)
  have b: "snd (snd (handleChat (provider_env (Yields hello_chunks None))
         (message_body (js ''   '')) initial_world new_response)) \<noteq> None"
    by (simp add: handleChat_def message_body_def js_def trim_def isWhiteSpace_def)
  show ?thesis
    using a b
      failed_relay_keeps_counters [where e = "provider_env (Yields hello_chunks (Some connection_error))"
        and body = "message_body (js ''hello'')" and w = initial_world and res = new_response
        and cs = hello_chunks and err = connection_error]
      failed_relay_keeps_counters [where e = "provider_env (Yields hello_chunks None)"
        and body = "message_body (js ''   '')" and w = initial_world and res = new_response]
    by (simp add: initial_world_def)
qed

section \<open>Validation\<close>

text \<open>
  Claim C4. The checks run in order and the first that fails decides the outcome: a
  message that is missing or not a string (or falsy) gives the first error; a string
  that passes the first check and trims to nothing gives the second; one that trims to
  more than 1000 code units gives the third; otherwise the headers are flushed and
  \<^verbatim>\<open>next\<close> is not called. A rejected request leaves the world and the response untouched.
  When the message is missing or not a string the client gets status 400 and the JSON
  body \<^verbatim>\<open>{"error":"Request body must include a \"message\" string."}\<close>.
\<close>

theorem validation_in_order:
  \<open>(typeof (body_message body) \<noteq> ''string'' \<longrightarrow>
      handleChat e body w res = (w, res, Some err_no_message) \<and>
      post_chat e body w =
        (w, \<lparr>statusCode = 400,
             headers = [(''Content-Type'', ''application/json; charset=utf-8'')],
             headersSent = True,
             sent = [Json (ErrorEvent (js ''Request body must include a "message" string.'')), End],
             tokenUsage = None\<rparr>)) \<and>
   (\<not> truthy (body_message body) \<longrightarrow> handleChat e body w res = (w, res, Some err_no_message)) \<and>
   (body_message body = Some (JStr s) \<and> s \<noteq> [] \<and> trim s = [] \<longrightarrow>
      handleChat e body w res = (w, res, Some err_blank)) \<and>
   (body_message body = Some (JStr s) \<and> trim s \<noteq> [] \<and> 1000 < length (trim s) \<longrightarrow>
      handleChat e body w res = (w, res, Some err_too_long)) \<and>
   (body_message body = Some (JStr s) \<and> trim s \<noteq> [] \<and> length (trim s) \<le> 1000 \<longrightarrow>
      snd (snd (handleChat e body w res)) = None \<and>
      headersSent (fst (snd (handleChat e body w res)))) \<and>
   err_statusCode err_no_message = Some 400 \<and>
   err_message err_no_message = js ''Request body must include a "message" string.'' \<and>
   err_message err_no_message = js ''Request body '' @ js ''must include a "message" string'' @ js ''.''\<close>
proof (intro conjI impI)
  assume a: "typeof (body_message body) \<noteq> ''string''"
  show "handleChat e body w res = (w, res, Some err_no_message)"
    using a by (rule handleChat_no_string)
  have "handleChat e body w new_response = (w, new_response, Some err_no_message)"
    using a by (rule handleChat_no_string)
  from json_error_response [OF err_no_message_simps(3) err_no_message_simps(4) this]
  show \<open>post_chat e body w =
        (w, \<lparr>statusCode = 400,
             headers = [(''Content-Type'', ''application/json; charset=utf-8'')],
             headersSent = True,
             sent = [Json (ErrorEvent (js ''Request body must include a "message" string.'')), End],
             tokenUsage = None\<rparr>)\<close>
    by (simp only: err_no_message_simps)
next
  assume "\<not> truthy (body_message body)"
  then show "handleChat e body w res = (w, res, Some err_no_message)" by (rule handleChat_falsy)
next
  assume "body_message body = Some (JStr s) \<and> s \<noteq> [] \<and> trim s = []"
  then show "handleChat e body w res = (w, res, Some err_blank)" by (simp add: handleChat_blank)
next
  assume "body_message body = Some (JStr s) \<and> trim s \<noteq> [] \<and> 1000 < length (trim s)"
  then show "handleChat e body w res = (w, res, Some err_too_long)" by (simp add: handleChat_too_long)
next
  assume a: "body_message body = Some (JStr s) \<and> trim s \<noteq> [] \<and> length (trim s) \<le> 1000"
  then show "snd (snd (handleChat e body w res)) = None"
    using handleChat_proceeds [of body s e w res] by simp
  from a show "headersSent (fst (snd (handleChat e body w res)))"
    using handleChat_proceeds [of body s e w res] by simp
next
  show "err_statusCode err_no_message = Some 400" by (rule err_no_message_simps)
  show \<open>err_message err_no_message = js ''Request body must include a "message" string.''\<close>
    by (rule err_no_message_simps)
  show \<open>err_message err_no_message
      = js ''Request body '' @ js ''must include a "message" string'' @ js ''.''\<close>
    by (rule error_phrases)
qed

theorem validation_in_order_witness:
  \<open>typeof (body_message (ObjectBody [])) \<noteq> ''string''
   \<and> post_chat (provider_env (Yields hello_chunks None)) (ObjectBody []) initial_world =
        (initial_world, \<lparr>statusCode = 400,
             headers = [(''Content-Type'', ''application/json; charset=utf-8'')],
             headersSent = True,
             sent = [Json (ErrorEvent (js ''Request body must include a "message" string.'')), End],
             tokenUsage = None\<rparr>)
   \<and> typeof (body_message (ObjectBody [(js ''message'', JNum 42)])) \<noteq> ''string''
   \<and> handleChat (provider_env (Yields hello_chunks None)) (ObjectBody [(js ''message'', JNum 42)])
         initial_world new_response = (initial_world, new_response, Some err_no_message)
   \<and> body_message (message_body (js ''hello'')) = Some (JStr (js ''hello''))
   \<and> trim (js ''hello'') \<noteq> [] \<and> length (trim (js ''hello'')) \<le> 1000
   \<and> snd (snd (handleChat (provider_env (Yields hello_chunks None)) (message_body (js ''hello''))
         initial_world new_response)) = None\<close>
proof -
  have a: "typeof (body_message (ObjectBody [])) \<noteq> ''string''" by simp
  have b: "typeof (body_message (ObjectBody [(js ''message'', JNum 42)])) \<noteq> ''string''" by simp
  have c: "body_message (message_body (js ''hello'')) = Some (JStr (js ''hello''))
     \<and> trim (js ''hello'') \<noteq> [] \<and> length (trim (js ''hello'')) \<le> 1000"
    by (simp add: message_body_def trim_hello) (simp add: js_def)
  show ?thesis
    using a b c
      validation_in_order [where body = "ObjectBody []"
        and e = "provider_env (Yields hello_chunks None)" and w = initial_world and res = new_response]
      validation_in_order [where body = "ObjectBody [(js ''message'', JNum 42)]"
        and e = "provider_env (Yields hello_chunks None)" and w = initial_world and res = new_response]
      validation_in_order [where body = "message_body (js ''hello'')" and s = "js ''hello''"
        and e = "provider_env (Yields hello_chunks None)" and w = initial_world and res = new_response]
    by simp
qed

text \<open>
  Claim C5, as stated, fails for the empty string: \<^verbatim>\<open>!message\<close> is true for \<^verbatim>\<open>""\<close>, so the
  first check rejects it and the error is the one of the first check, not
  \<^verbatim>\<open>"message" must not be blank.\<close>
\<close>

theorem empty_message_counterexample:
  "body_message (message_body []) = Some (JStr [])
   \<and> trim [] = ([] :: jsstring)
   \<and> handleChat (provider_env (Yields hello_chunks None)) (message_body []) initial_world new_response
       = (initial_world, new_response, Some err_no_message)
   \<and> snd (snd (handleChat (provider_env (Yields hello_chunks None)) (message_body [])
         initial_world new_response)) \<noteq> Some err_blank"
  by (simp add: handleChat_def message_body_def trim_def err_no_message_def err_blank_def
      new_Error_def js_def)

text \<open>
  Claim C5, amended. A string message whose trimmed form is empty is always rejected
  with status 400 before anything is streamed: a non-empty (whitespace-only) one by the
  second check, with the error \<^verbatim>\<open>"message" must not be blank.\<close>; the empty string by the
  first check, with the error \<^verbatim>\<open>Request body must include a "message" string.\<close>
\<close>

theorem blank_message_rejected:
  assumes "body_message body = Some (JStr s)" "trim s = []"
  shows \<open>(s \<noteq> [] \<longrightarrow>
            handleChat e body w res = (w, res, Some err_blank) \<and>
            post_chat e body w =
              (w, \<lparr>statusCode = 400,
                   headers = [(''Content-Type'', ''application/json; charset=utf-8'')],
                   headersSent = True,
                   sent = [Json (ErrorEvent (js ''"message" must not be blank.'')), End],
                   tokenUsage = None\<rparr>)) \<and>
         (s = [] \<longrightarrow>
            handleChat e body w res = (w, res, Some err_no_message) \<and>
            post_chat e body w =
              (w, \<lparr>statusCode = 400,
                   headers = [(''Content-Type'', ''application/json; charset=utf-8'')],
                   headersSent = True,
                   sent = [Json (ErrorEvent (js ''Request body must include a "message" string.'')), End],
                   tokenUsage = None\<rparr>)) \<and>
         err_message err_blank = js ''"message" '' @ js ''must not be blank'' @ js ''.''\<close>
proof (intro conjI impI)
  show \<open>err_message err_blank = js ''"message" '' @ js ''must not be blank'' @ js ''.''\<close>
    by (rule error_phrases)
next
  assume ne: "s \<noteq> []"
  show "handleChat e body w res = (w, res, Some err_blank)"
    using assms ne by (simp add: handleChat_blank)
  have "handleChat e body w new_response = (w, new_response, Some err_blank)"
    using assms ne by (simp add: handleChat_blank)
  from json_error_response [OF err_blank_simps(3) err_blank_simps(4) this]
  show \<open>post_chat e body w =
              (w, \<lparr>statusCode = 400,
                   headers = [(''Content-Type'', ''application/json; charset=utf-8'')],
                   headersSent = True,
                   sent = [Json (ErrorEvent (js ''"message" must not be blank.'')), End],
                   tokenUsage = None\<rparr>)\<close>
    by (simp only: err_blank_simps)
next
  assume e: "s = []"
  then have f: "\<not> truthy (body_message body)" using assms by simp
  then show "handleChat e body w res = (w, res, Some err_no_message)" by (rule handleChat_falsy)
  have "handleChat e body w new_response = (w, new_response, Some err_no_message)"
    using f by (rule handleChat_falsy)
  from json_error_response [OF err_no_message_simps(3) err_no_message_simps(4) this]
  show \<open>post_chat e body w =
              (w, \<lparr>statusCode = 400,
                   headers = [(''Content-Type'', ''application/json; charset=utf-8'')],
                   headersSent = True,
                   sent = [Json (ErrorEvent (js ''Request body must include a "message" string.'')), End],
                   tokenUsage = None\<rparr>)\<close>
    by (simp only: err_no_message_simps)
qed

theorem blank_message_rejected_witness:
  \<open>body_message (message_body (js ''   '')) = Some (JStr (js ''   ''))
   \<and> trim (js ''   '') = [] \<and> js ''   '' \<noteq> []
   \<and> post_chat (provider_env (Yields hello_chunks None)) (message_body (js ''   '')) initial_world =
        (initial_world, \<lparr>statusCode = 400,
             headers = [(''Content-Type'', ''application/json; charset=utf-8'')],
             headersSent = True,
             sent = [Json (ErrorEvent (js ''"message" must not be blank.'')), End],
             tokenUsage = None\<rparr>)\<close>
proof -
  have a: "body_message (message_body (js ''   '')) = Some (JStr (js ''   ''))"
    by (simp add: message_body_def)
  have b: "trim (js ''   '') = []" by (simp add: trim_def js_def isWhiteSpace_def)
  have c: "js ''   '' \<noteq> []" by (simp add: js_def)
  show ?thesis
    using a b c blank_message_rejected [OF a b, where e = "provider_env (Yields hello_chunks None)"
        and w = initial_world]
    by simp
qed

text \<open>
  Claim C6. A string message whose trimmed length is 1001 or more is rejected with
  status 400 and the error \<^verbatim>\<open>"message" must be 1000 characters or fewer.\<close>; one whose
  trimmed length is exactly 1000 passes validation: the headers are flushed, \<^verbatim>\<open>next\<close> is
  not called, and one request carrying the trimmed message goes to the provider.
\<close>

theorem length_limit:
  assumes "body_message body = Some (JStr s)"
  shows \<open>(1001 \<le> length (trim s) \<longrightarrow>
            handleChat e body w res = (w, res, Some err_too_long) \<and>
            post_chat e body w =
              (w, \<lparr>statusCode = 400,
                   headers = [(''Content-Type'', ''application/json; charset=utf-8'')],
                   headersSent = True,
                   sent = [Json (ErrorEvent (js ''"message" must be 1000 characters or fewer.'')), End],
                   tokenUsage = None\<rparr>)) \<and>
         (length (trim s) = 1000 \<longrightarrow>
            snd (snd (handleChat e body w res)) = None \<and>
            headersSent (fst (snd (handleChat e body w res))) \<and>
            upstream_log (fst (handleChat e body w res))
              = upstream_log w @ [chat_completion_request e (trim s)]) \<and>
         err_message err_too_long
           = js ''"message" '' @ js ''must be 1000 characters or fewer'' @ js ''.''\<close>
proof (intro conjI impI)
  show \<open>err_message err_too_long
           = js ''"message" '' @ js ''must be 1000 characters or fewer'' @ js ''.''\<close>
    by (rule error_phrases)
next
  assume "1001 \<le> length (trim s)"
  then have l: "1000 < length (trim s)" by simp
  show "handleChat e body w res = (w, res, Some err_too_long)"
    using assms l by (rule handleChat_too_long)
  have "handleChat e body w new_response = (w, new_response, Some err_too_long)"
    using assms l by (rule handleChat_too_long)
  from json_error_response [OF err_too_long_simps(3) err_too_long_simps(4) this]
  show \<open>post_chat e body w =
              (w, \<lparr>statusCode = 400,
                   headers = [(''Content-Type'', ''application/json; charset=utf-8'')],
                   headersSent = True,
                   sent = [Json (ErrorEvent (js ''"message" must be 1000 characters or fewer.'')), End],
                   tokenUsage = None\<rparr>)\<close>
    by (simp only: err_too_long_simps)
next
  assume l: "length (trim s) = 1000"
  then have t: "trim s \<noteq> []" "length (trim s) \<le> 1000" by auto
  from handleChat_proceeds [OF assms t]
  show "snd (snd (handleChat e body w res)) = None"
    and "headersSent (fst (snd (handleChat e body w res)))"
    and "upstream_log (fst (handleChat e body w res))
              = upstream_log w @ [chat_completion_request e (trim s)]"
    by simp_all
qed

theorem length_limit_witness:
  \<open>body_message (message_body (replicate 1001 0x61)) = Some (JStr (replicate 1001 0x61))
   \<and> 1001 \<le> length (trim (replicate 1001 (0x61 :: 16 word)))
   \<and> handleChat (provider_env (Yields hello_chunks None)) (message_body (replicate 1001 0x61))
        initial_world new_response = (initial_world, new_response, Some err_too_long)
   \<and> body_message (message_body (replicate 1000 0x61)) = Some (JStr (replicate 1000 0x61))
   \<and> length (trim (replicate 1000 (0x61 :: 16 word))) = 1000
   \<and> snd (snd (handleChat (provider_env (Yields hello_chunks None)) (message_body (replicate 1000 0x61))
        initial_world new_response)) = None
   \<and> upstream_log (fst (handleChat (provider_env (Yields hello_chunks None))
        (message_body (replicate 1000 0x61)) initial_world new_response))
       = [chat_completion_request (provider_env (Yields hello_chunks None)) (replicate 1000 0x61)]\<close>
proof -
  have a: "body_message (message_body (replicate 1001 0x61)) = Some (JStr (replicate 1001 0x61))"
    by (simp add: message_body_def)
  have b: "body_message (message_body (replicate 1000 0x61)) = Some (JStr (replicate 1000 0x61))"
    by (simp add: message_body_def)
  have c: "trim (replicate 1001 (0x61 :: 16 word)) = replicate 1001 0x61"
    by (rule trim_replicate_a) simp
  have d: "trim (replicate 1000 (0x61 :: 16 word)) = replicate 1000 0x61"
    by (rule trim_replicate_a) simp
  show ?thesis
    using a b
      length_limit [OF a, where e = "provider_env (Yields hello_chunks None)"
        and w = initial_world and res = new_response]
      length_limit [OF b, where e = "provider_env (Yields hello_chunks None)"
        and w = initial_world and res = new_response]
    by (simp add: c d initial_world_def)
qed

section \<open>Failures\<close>

text \<open>
  Claim C7. In the \<^verbatim>\<open>catch\<close> block, once the headers have been sent the handler writes
  the one frame \<^verbatim>\<open>{"error":"Stream error occurred."}\<close>, ends the response and does not call
  \<^verbatim>\<open>next\<close>, so no JSON error response is produced; with the headers unsent it passes the
  error to \<^verbatim>\<open>next\<close>, and the error middleware sends the JSON object \<^verbatim>\<open>{"error": msg}\<close> and
  ends the response. In a chat request: a rejected provider call gives the error frame
  and the end of the channel; a stream that throws gives the chunk frames forwarded so
  far, then the error frame and the end; an error handed to \<^verbatim>\<open>next\<close> finds the world and
  the response untouched, headers unsent, and the client gets the JSON error object.
\<close>

theorem failure_paths:
  "(headersSent res \<longrightarrow>
      handleChat_catch err w res =
        (w, res\<lparr>sent := sent res @ [Write (ErrorEvent (js ''Stream error occurred.'')), End]\<rparr>, None)) \<and>
   (\<not> headersSent res \<longrightarrow>
      handleChat_catch err w res = (w, res, Some err) \<and>
      sent (errorMiddleware err res) =
        sent res @ [Json (ErrorEvent (if err_message err \<noteq> [] then err_message err
                                     else js ''Internal server error'')), End]) \<and>
   (body_message body = Some (JStr m) \<and> trim m \<noteq> [] \<and> length (trim m) \<le> 1000 \<and>
    create e (chat_completion_request e (trim m)) = Rejects err \<longrightarrow>
      post_chat e body w =
        (w\<lparr>upstream_log := upstream_log w @ [chat_completion_request e (trim m)]\<rparr>,
         (flush_sse_headers new_response)
           \<lparr>sent := [Write (ErrorEvent (js ''Stream error occurred.'')), End]\<rparr>)) \<and>
   (body_message body = Some (JStr m) \<and> trim m \<noteq> [] \<and> length (trim m) \<le> 1000 \<and>
    create e (chat_completion_request e (trim m)) = Yields cs (Some err) \<longrightarrow>
      post_chat e body w =
        (w\<lparr>upstream_log := upstream_log w @ [chat_completion_request e (trim m)]\<rparr>,
         (flush_sse_headers new_response)
           \<lparr>sent := map (\<lambda>d. Write (ChunkEvent d)) (fragments cs)
                     @ [Write (ErrorEvent (js ''Stream error occurred.'')), End]\<rparr>)) \<and>
   (snd (snd (handleChat e body w new_response)) = Some err \<longrightarrow>
      handleChat e body w new_response = (w, new_response, Some err) \<and>
      \<not> headersSent new_response \<and>
      post_chat e body w =
        (w, \<lparr>statusCode = error_status err,
             headers = [(''Content-Type'', ''application/json; charset=utf-8'')],
             headersSent = True,
             sent = [Json (ErrorEvent (if err_message err \<noteq> [] then err_message err
                                       else js ''Internal server error'')), End],
             tokenUsage = None\<rparr>))"
proof (intro conjI impI)
  assume "headersSent res"
  then show "handleChat_catch err w res =
        (w, res\<lparr>sent := sent res @ [Write (ErrorEvent (js ''Stream error occurred.'')), End]\<rparr>, None)"
    by (rule catch_after_headers)
next
  assume "\<not> headersSent res"
  then show "handleChat_catch err w res = (w, res, Some err)" by (rule catch_before_headers)
next
  show "sent (errorMiddleware err res) =
        sent res @ [Json (ErrorEvent (if err_message err \<noteq> [] then err_message err
                                     else js ''Internal server error'')), End]"
    by (rule sent_errorMiddleware)
next
  assume a: "body_message body = Some (JStr m) \<and> trim m \<noteq> [] \<and> length (trim m) \<le> 1000 \<and>
    create e (chat_completion_request e (trim m)) = Rejects err"
  then have "handleChat e body w new_response =
     (w\<lparr>upstream_log := upstream_log w @ [chat_completion_request e (trim m)]\<rparr>,
      (flush_sse_headers new_response)\<lparr>sent := sent new_response
         @ [Write (ErrorEvent (js ''Stream error occurred.'')), End]\<rparr>, None)"
    by (intro handleChat_rejected) simp_all
  then show "post_chat e body w =
        (w\<lparr>upstream_log := upstream_log w @ [chat_completion_request e (trim m)]\<rparr>,
         (flush_sse_headers new_response)
           \<lparr>sent := [Write (ErrorEvent (js ''Stream error occurred.'')), End]\<rparr>)"
    by (simp add: post_chat_def new_response_def)
next
  assume a: "body_message body = Some (JStr m) \<and> trim m \<noteq> [] \<and> length (trim m) \<le> 1000 \<and>
    create e (chat_completion_request e (trim m)) = Yields cs (Some err)"
  then have "handleChat e body w new_response =
     (w\<lparr>upstream_log := upstream_log w @ [chat_completion_request e (trim m)]\<rparr>,
      (flush_sse_headers new_response)\<lparr>sent := sent new_response
         @ map (\<lambda>d. Write (ChunkEvent d)) (fragments cs)
         @ [Write (ErrorEvent (js ''Stream error occurred.'')), End]\<rparr>, None)"
    by (intro handleChat_thrown) simp_all
  then show "post_chat e body w =
        (w\<lparr>upstream_log := upstream_log w @ [chat_completion_request e (trim m)]\<rparr>,
         (flush_sse_headers new_response)
           \<lparr>sent := map (\<lambda>d. Write (ChunkEvent d)) (fragments cs)
                     @ [Write (ErrorEvent (js ''Stream error occurred.'')), End]\<rparr>)"
    by (simp add: post_chat_def new_response_def)
next
  assume a: "snd (snd (handleChat e body w new_response)) = Some err"
  then show h: "handleChat e body w new_response = (w, new_response, Some err)"
    by (rule handleChat_next)
  show "\<not> headersSent new_response" by (simp add: new_response_def)
  from h show "post_chat e body w =
        (w, \<lparr>statusCode = error_status err,
             headers = [(''Content-Type'', ''application/json; charset=utf-8'')],
             headersSent = True,
             sent = [Json (ErrorEvent (if err_message err \<noteq> [] then err_message err
                                       else js ''Internal server error'')), End],
             tokenUsage = None\<rparr>)"
    by (simp add: post_chat_def errorMiddleware_new_response)
qed


theorem failure_paths_witness:
  \<open>body_message (message_body (js ''hello'')) = Some (JStr (js ''hello''))
   \<and> trim (js ''hello'') \<noteq> [] \<and> length (trim (js ''hello'')) \<le> 1000
   \<and> create (provider_env (Yields hello_chunks (Some connection_error)))
        (chat_completion_request (provider_env (Yields hello_chunks (Some connection_error)))
           (trim (js ''hello'')))
       = Yields hello_chunks (Some connection_error)
   \<and> snd (post_chat (provider_env (Yields hello_chunks (Some connection_error)))
        (message_body (js ''hello'')) initial_world) =
        \<lparr>statusCode = 200,
         headers = [(''X-Accel-Buffering'', ''no''), (''Connection'', ''keep-alive''),
                    (''Cache-Control'', ''no-cache''), (''Content-Type'', ''text/event-stream'')],
         headersSent = True,
         sent = [Write (ChunkEvent (js ''Hi'')), Write (ChunkEvent (js '' there'')),
                 Write (ErrorEvent (js ''Stream error occurred.'')), End],
         tokenUsage = None\<rparr>
   \<and> snd (snd (handleChat (provider_env (Yields hello_chunks (Some connection_error)))
        (ObjectBody []) initial_world new_response)) = Some err_no_message
   \<and> snd (post_chat (provider_env (Yields hello_chunks (Some connection_error)))
        (ObjectBody []) initial_world) =
        \<lparr>statusCode = 400,
         headers = [(''Content-Type'', ''application/json; charset=utf-8'')],
         headersSent = True,
         sent = [Json (ErrorEvent (js ''Request body must include a "message" string.'')), End],
         tokenUsage = None\<rparr>
   \<and> headersSent (flush_sse_headers new_response)
   \<and> handleChat_catch connection_error initial_world (flush_sse_headers new_response) =
        (initial_world,
         (flush_sse_headers new_response)
           \<lparr>sent := [Write (ErrorEvent (js ''Stream error occurred.'')), End]\<rparr>, None)
   \<and> \<not> headersSent new_response
   \<and> sent (errorMiddleware connection_error new_response) =
        [Json (ErrorEvent (js ''Connection error.'')), End]\<close>
proof -
  have a: "body_message (message_body (js ''hello'')) = Some (JStr (js ''hello''))
     \<and> trim (js ''hello'') \<noteq> [] \<and> length (trim (js ''hello'')) \<le> 1000"
    by (simp add: message_body_def trim_hello) (simp add: js_def)
  have b: "create (provider_env (Yields hello_chunks (Some connection_error)))
        (chat_completion_request (provider_env (Yields hello_chunks (Some connection_error)))
           (trim (js ''hello'')))
       = Yields hello_chunks (Some connection_error)"
    by (simp add: provider_env_def)
  have c: "snd (snd (handleChat (provider_env (Yields hello_chunks (Some connection_error)))
        (ObjectBody []) initial_world new_response)) = Some err_no_message"
    by (simp add: handleChat_no_string)
  have d: "headersSent (flush_sse_headers new_response)" by simp
  have e: "\<not> headersSent new_response" by (simp add: new_response_def)
  have f: "err_message connection_error \<noteq> []" "err_message connection_error = js ''Connection error.''"
    by (simp_all add: connection_error_def js_def)
  have p1: "snd (post_chat (provider_env (Yields hello_chunks (Some connection_error)))
        (message_body (js ''hello'')) initial_world) =
        \<lparr>statusCode = 200,
         headers = [(''X-Accel-Buffering'', ''no''), (''Connection'', ''keep-alive''),
                    (''Cache-Control'', ''no-cache''), (''Content-Type'', ''text/event-stream'')],
         headersSent = True,
         sent = [Write (ChunkEvent (js ''Hi'')), Write (ChunkEvent (js '' there'')),
                 Write (ErrorEvent (js ''Stream error occurred.'')), End],
         tokenUsage = None\<rparr>"
    using a b
      failure_paths [where e = "provider_env (Yields hello_chunks (Some connection_error))"
        and body = "message_body (js ''hello'')" and m = "js ''hello''" and w = initial_world
        and cs = hello_chunks and err = connection_error]
    by (simp add: hello_fragments sse_response)
  have p2: \<open>snd (post_chat (provider_env (Yields hello_chunks (Some connection_error)))
        (ObjectBody []) initial_world) =
        \<lparr>statusCode = 400,
         headers = [(''Content-Type'', ''application/json; charset=utf-8'')],
         headersSent = True,
         sent = [Json (ErrorEvent (js ''Request body must include a "message" string.'')), End],
         tokenUsage = None\<rparr>\<close>
    using c
      failure_paths [where e = "provider_env (Yields hello_chunks (Some connection_error))"
        and body = "ObjectBody []" and w = initial_world and err = err_no_message]
    by (simp add: err_no_message_simps)
  have p3: "handleChat_catch connection_error initial_world (flush_sse_headers new_response) =
        (initial_world,
         (flush_sse_headers new_response)
           \<lparr>sent := [Write (ErrorEvent (js ''Stream error occurred.'')), End]\<rparr>, None)"
    using d failure_paths [where err = connection_error and res = "flush_sse_headers new_response"
        and w = initial_world]
    by simp
  have p4: "sent (errorMiddleware connection_error new_response) =
        [Json (ErrorEvent (js ''Connection error.'')), End]"
    using e failure_paths [where err = connection_error and res = new_response and w = initial_world]
    by (simp add: f new_response_def)
  show ?thesis
    using a b c d e p1 p2 p3 p4 by simp
qed

text \<open>
  Upstream failures and the headers. \<^verbatim>\<open>handleChat\<close> flushes the headers before its only
  call of the provider: when that call rejects or the stream throws, \<^verbatim>\<open>streamAIReply\<close>
  raises on a response whose headers are sent, and the \<^verbatim>\<open>catch\<close> block runs on that
  response. \<^verbatim>\<open>next\<close> only ever receives one of the three validation errors, and the status
  of a chat response is 200 or 400. No run of a chat request has an upstream failure
  before the headers are sent.
\<close>

lemma next_only_validation_errors:
  assumes "snd (snd (handleChat e body w res)) = Some err"
  shows "err = err_no_message \<or> err = err_blank \<or> err = err_too_long"
proof (cases "typeof (body_message body) = ''string''")
  case False
  with assms show ?thesis by (simp add: handleChat_no_string)
next
  case True
  then obtain s where s: "body_message body = Some (JStr s)"
    by (cases "body_message body" rule: typeof.cases) simp_all
  show ?thesis
  proof (cases "s = []")
    case True
    with s have "\<not> truthy (body_message body)" by simp
    with assms show ?thesis by (simp add: handleChat_falsy)
  next
    case ne: False
    show ?thesis
    proof (cases "trim s = []")
      case True
      with assms s ne show ?thesis by (simp add: handleChat_blank)
    next
      case t: False
      show ?thesis
      proof (cases "1000 < length (trim s)")
        case True
        with assms s show ?thesis by (simp add: handleChat_too_long)
      next
        case False
        then have "length (trim s) \<le> 1000" by simp
        from handleChat_proceeds [OF s t this, of e w res] assms show ?thesis by simp
      qed
    qed
  qed
qed

lemma upstream_failure_after_headers:
  assumes "body_message body = Some (JStr m)" "trim m \<noteq> []" "length (trim m) \<le> 1000"
    and "create e (chat_completion_request e (trim m)) = Rejects err
       \<or> create e (chat_completion_request e (trim m)) = Yields cs (Some err)"
  shows "\<exists>res2. headersSent res2 \<and>
           streamAIReply e (trim m) w (flush_sse_headers res)
             = (Inl err, w\<lparr>upstream_log := upstream_log w @ [chat_completion_request e (trim m)]\<rparr>, res2) \<and>
           handleChat e body w res
             = handleChat_catch err
                 (w\<lparr>upstream_log := upstream_log w @ [chat_completion_request e (trim m)]\<rparr>) res2"
  using assms(4)
proof
  assume r: "create e (chat_completion_request e (trim m)) = Rejects err"
  have "streamAIReply e (trim m) w (flush_sse_headers res)
      = (Inl err, w\<lparr>upstream_log := upstream_log w @ [chat_completion_request e (trim m)]\<rparr>,
         flush_sse_headers res)"
    using r by (rule streamAIReply_rejects)
  then show ?thesis using assms(1-3) by (simp add: handleChat_accepts)
next
  assume t: "create e (chat_completion_request e (trim m)) = Yields cs (Some err)"
  have "streamAIReply e (trim m) w (flush_sse_headers res)
      = (Inl err, w\<lparr>upstream_log := upstream_log w @ [chat_completion_request e (trim m)]\<rparr>,
         (flush_sse_headers res)\<lparr>sent := sent (flush_sse_headers res)
            @ map (\<lambda>d. Write (ChunkEvent d)) (fragments cs)\<rparr>)"
    using t by (rule streamAIReply_throws) simp
  then show ?thesis using assms(1-3) by (simp add: handleChat_accepts)
qed

lemma post_chat_status:
  "statusCode (snd (post_chat e body w)) = 200 \<or> statusCode (snd (post_chat e body w)) = 400"
proof (cases "snd (snd (handleChat e body w new_response))")
  case None
  consider (valid) m where "body_message body = Some (JStr m)" "trim m \<noteq> []" "length (trim m) \<le> 1000"
    | (invalid) err where "handleChat e body w new_response = (w, new_response, Some err)"
    using handleChat_cases [of body e w new_response] by blast
  then show ?thesis
  proof cases
    case invalid
    with None show ?thesis by simp
  next
    case valid
    note v = valid
    show ?thesis
    proof (cases "create e (chat_completion_request e (trim m))")
      case (Rejects err)
      from handleChat_rejected [OF v Rejects, of w new_response] show ?thesis
        by (simp add: post_chat_def)
    next
      case (Yields cs thrown)
      show ?thesis
      proof (cases thrown)
        case (Some err)
        with Yields have "create e (chat_completion_request e (trim m)) = Yields cs (Some err)" by simp
        from handleChat_thrown [OF v this, of w new_response] show ?thesis
          by (simp add: post_chat_def)
      next
        case None
        with Yields have "create e (chat_completion_request e (trim m)) = Yields cs None" by simp
        from handleChat_completes [OF v this, of w new_response] show ?thesis
          by (simp add: post_chat_def)
      qed
    qed
  qed
next
  case (Some err)
  then have h: "handleChat e body w new_response = (w, new_response, Some err)"
    by (rule handleChat_next)
  from Some have "err = err_no_message \<or> err = err_blank \<or> err = err_too_long"
    by (rule next_only_validation_errors)
  then have "error_status err = 400"
    using err_no_message_simps(4) err_blank_simps(4) err_too_long_simps(4) by blast
  with h show ?thesis by (simp add: post_chat_def statusCode_errorMiddleware)
qed

section \<open>The request sent upstream\<close>

text \<open>
  Claim C10. For a request that passes validation, the one request sent to the provider
  carries the system prompt and, as the user message, the trimmed message; a body whose
  message differs from it only by whitespace added in front and behind leads to the same
  upstream request.
\<close>

theorem upstream_gets_trimmed_message:
  assumes "body_message body = Some (JStr m)" "trim m \<noteq> []" "length (trim m) \<le> 1000"
  shows "upstream_log (fst (post_chat e body w))
           = upstream_log w @ [chat_completion_request e (trim m)]
       \<and> messages (chat_completion_request e (trim m))
           = [(js ''system'', OWNER_CONTEXT e), (js ''user'', trim m)]
       \<and> (list_all isWhiteSpace pre \<and> list_all isWhiteSpace post \<and>
          body_message body' = Some (JStr (pre @ m @ post)) \<longrightarrow>
            upstream_log (fst (post_chat e body' w)) = upstream_log (fst (post_chat e body w)))"
proof (intro conjI impI)
  show l: "upstream_log (fst (post_chat e body w))
           = upstream_log w @ [chat_completion_request e (trim m)]"
    using handleChat_proceeds [OF assms, of e w new_response] by (simp add: fst_post_chat)
  show "messages (chat_completion_request e (trim m))
           = [(js ''system'', OWNER_CONTEXT e), (js ''user'', trim m)]"
    by (simp add: chat_completion_request_def)
  assume a: "list_all isWhiteSpace pre \<and> list_all isWhiteSpace post \<and>
          body_message body' = Some (JStr (pre @ m @ post))"
  then have t: "trim (pre @ m @ post) = trim m" by (simp add: trim_surrounding)
  have "upstream_log (fst (post_chat e body' w))
           = upstream_log w @ [chat_completion_request e (trim (pre @ m @ post))]"
    using a assms(2,3) handleChat_proceeds [of body' "pre @ m @ post" e w new_response]
    by (simp add: fst_post_chat t)
  with l t show "upstream_log (fst (post_chat e body' w)) = upstream_log (fst (post_chat e body w))"
    by simp
qed

theorem upstream_gets_trimmed_message_witness:
  "body_message (message_body (js ''  hello '')) = Some (JStr (js ''  hello ''))
   \<and> trim (js ''  hello '') \<noteq> [] \<and> length (trim (js ''  hello '')) \<le> 1000
   \<and> upstream_log (fst (post_chat (provider_env (Yields hello_chunks None))
        (message_body (js ''  hello '')) initial_world))
       = [\<lparr>model = js ''gpt-4o-mini'',
           messages = [(js ''system'', js ''You are an AI assistant''), (js ''user'', js ''hello'')],
           max_tokens = 512, temperature = 7 / 10, stream = True, include_usage = True\<rparr>]
   \<and> list_all isWhiteSpace (js [CHR 0x09]) \<and> list_all isWhiteSpace (js [CHR 0x0A])
   \<and> body_message (message_body (js [CHR 0x09] @ js ''  hello '' @ js [CHR 0x0A]))
       = Some (JStr (js [CHR 0x09] @ js ''  hello '' @ js [CHR 0x0A]))
   \<and> upstream_log (fst (post_chat (provider_env (Yields hello_chunks None))
        (message_body (js [CHR 0x09] @ js ''  hello '' @ js [CHR 0x0A])) initial_world))
       = upstream_log (fst (post_chat (provider_env (Yields hello_chunks None))
        (message_body (js ''  hello '')) initial_world))"
proof -
  have a: "body_message (message_body (js ''  hello '')) = Some (JStr (js ''  hello ''))"
    by (simp add: message_body_def)
  have b: "trim (js ''  hello '') \<noteq> []" "length (trim (js ''  hello '')) \<le> 1000"
    by (simp_all add: trim_padded_hello) (simp add: js_def)
  have c: "list_all isWhiteSpace (js [CHR 0x09]) \<and> list_all isWhiteSpace (js [CHR 0x0A])"
    by (simp add: js_def isWhiteSpace_def)
  have d: "body_message (message_body (js [CHR 0x09] @ js ''  hello '' @ js [CHR 0x0A]))
       = Some (JStr (js [CHR 0x09] @ js ''  hello '' @ js [CHR 0x0A]))"
    by (simp add: message_body_def)
  have p1: "upstream_log (fst (post_chat (provider_env (Yields hello_chunks None))
        (message_body (js ''  hello '')) initial_world))
       = [\<lparr>model = js ''gpt-4o-mini'',
           messages = [(js ''system'', js ''You are an AI assistant''), (js ''user'', js ''hello'')],
           max_tokens = 512, temperature = 7 / 10, stream = True, include_usage = True\<rparr>]"
    using upstream_gets_trimmed_message [OF a b, where e = "provider_env (Yields hello_chunks None)"
        and w = initial_world]
    by (simp add: trim_padded_hello chat_completion_request_def provider_env_def model_name_def
        initial_world_def)
  have p2: "upstream_log (fst (post_chat (provider_env (Yields hello_chunks None))
        (message_body (js [CHR 0x09] @ js ''  hello '' @ js [CHR 0x0A])) initial_world))
       = upstream_log (fst (post_chat (provider_env (Yields hello_chunks None))
        (message_body (js ''  hello '')) initial_world))"
    using c d upstream_gets_trimmed_message [OF a b, where e = "provider_env (Yields hello_chunks None)"
        and w = initial_world and pre = "js [CHR 0x09]" and post = "js [CHR 0x0A]"
        and body' = "message_body (js [CHR 0x09] @ js ''  hello '' @ js [CHR 0x0A])"]
    by blast
  show ?thesis using a b c d p1 p2 by simp
qed

section \<open>Adding JavaScript numbers\<close>

declare bitlen.simps [simp del]

lemma bitlen_0 [simp]: "bitlen 0 = 0"
  by (simp add: bitlen.simps)

lemma bitlen_pos: "0 < n \<Longrightarrow> bitlen n = Suc (bitlen (n div 2))"
  by (simp add: bitlen.simps)

lemma bitlen_upper: "n < 2 ^ bitlen n"
proof (induction n rule: bitlen.induct)
  case (1 n)
  show ?case
  proof (cases "n = 0")
    case True
    then show ?thesis by simp
  next
    case False
    then have "n div 2 < 2 ^ bitlen (n div 2)" using "1" by simp
    then have "n < 2 * 2 ^ bitlen (n div 2)" by linarith
    then show ?thesis using False by (simp add: bitlen_pos)
  qed
qed

lemma bitlen_lower: "0 < n \<Longrightarrow> 2 ^ (bitlen n - 1) \<le> n"
proof (induction n rule: bitlen.induct)
  case (1 n)
  show ?case
  proof (cases "n div 2 = 0")
    case True
    then have "n = 1" using "1.prems" by linarith
    then show ?thesis by (simp add: bitlen_pos)
  next
    case False
    then have "2 ^ (bitlen (n div 2) - 1) \<le> n div 2" using "1" by simp
    moreover have "bitlen (n div 2) > 0" using False by (simp add: bitlen_pos)
    ultimately have "2 ^ bitlen (n div 2) \<le> 2 * (n div 2)"
      by (cases "bitlen (n div 2)") simp_all
    then have "2 ^ bitlen (n div 2) \<le> n" by linarith
    then show ?thesis using "1.prems" by (simp add: bitlen_pos)
  qed
qed

lemma bitlen_eq:
  assumes "2 ^ k \<le> n" "n < 2 ^ Suc k"
  shows "bitlen n = Suc k"
proof -
  have "(0::nat) < 2 ^ k" by simp
  then have pos: "0 < n" using assms(1) by linarith
  have "(2::nat) ^ k < 2 ^ bitlen n" using assms(1) bitlen_upper [of n] by linarith
  then have a: "k < bitlen n" by (rule power_less_imp_less_exp [rotated]) simp
  have "(2::nat) ^ (bitlen n - 1) < 2 ^ Suc k" using bitlen_lower [OF pos] assms(2) by linarith
  then have "bitlen n - 1 < Suc k" by (rule power_less_imp_less_exp [rotated]) simp
  with a show ?thesis by linarith
qed
































section \<open>The accumulator over the life of the process\<close>

lemma recorded_append: "recorded (xs @ ys) = recorded xs @ recorded ys"
  by (induction xs rule: recorded.induct) simp_all


















lemma to_double_tie_up: "to_double 9007199254740995 = enat 9007199254740996"
proof -
  have "bitlen 9007199254740995 = Suc 53" by (rule bitlen_eq) simp_all
  then have "round_to 53 9007199254740995 = round_half_even 1 9007199254740995"
    by (simp add: round_to_def)
  also have "\<dots> = 9007199254740996" by (simp add: round_half_even_def Let_def)
  finally have r: "round_to 53 9007199254740995 = 9007199254740996" by simp
  have "(9007199254740996::nat) < 2 ^ 54" by simp
  also have "(2::nat) ^ 54 < 2 ^ 1024" by (rule power_strict_increasing) simp_all
  finally show ?thesis unfolding to_double_def Let_def r by simp
qed




end
